theory Spec2Isabelle
  imports Main "HOL-Library.Sublist" "HOL-Library.AList"
begin

section \<open>Python values\<close>

text \<open>
  The three programs keep their records as Python dictionaries read from and written to a
  JSON file, so the values of the model are the values \<open>json.load\<close> can return:
  \<open>None\<close>, booleans, integers, strings, lists and dictionaries with string keys.
  Numbers with a fraction or an exponent (Python floats) are outside the model.
  A string is a list of characters; a character is read as the code point of the same
  number (0 to 255), which fixes what \<open>str.strip\<close>, \<open>str.lower\<close> and
  \<open>str.isdigit\<close> do on it.
\<close>

datatype json =
    JNull
  | JBool bool
  | JInt int
  | JStr string
  | JList "json list"
  | JObj "(string \<times> json) list"

text \<open>
  A record of a store is a dictionary built by the program or by \<open>dict(entry)\<close>.
  Its keys are hashable values; \<open>dict\<close> applied to a list of pairs can produce
  keys that are not strings, so the key type has all four kinds. A dictionary is an
  association list in insertion order, as Python keeps it.
\<close>

datatype key = KNone | KBool bool | KInt int | KStr string

type_synonym pydict = "(key \<times> json) list"

datatype error =
    TypeError | ValueError | KeyError | AttributeError | EOFError | UnicodeDecodeError

text \<open>\<open>bool\<close> is a subclass of \<open>int\<close>: \<open>True\<close> counts as 1.\<close>

fun isinstance_int :: "json \<Rightarrow> bool" where
  "isinstance_int (JInt i) = True"
| "isinstance_int (JBool b) = True"
| "isinstance_int v = False"

fun int_value :: "json \<Rightarrow> int" where
  "int_value (JInt i) = i"
| "int_value (JBool b) = (if b then 1 else 0)"
| "int_value v = 0"

text \<open>Truth value of an object, as \<open>not v\<close>, \<open>if v\<close> and \<open>v or w\<close> test it.\<close>

fun truthy :: "json \<Rightarrow> bool" where
  "truthy JNull = False"
| "truthy (JBool b) = b"
| "truthy (JInt i) = (i \<noteq> 0)"
| "truthy (JStr s) = (s \<noteq> [])"
| "truthy (JList xs) = (xs \<noteq> [])"
| "truthy (JObj kvs) = (kvs \<noteq> [])"

text \<open>
  \<open>a == b\<close> on values: numbers compare by value across \<open>bool\<close> and \<open>int\<close>,
  lists element by element, dictionaries by their key sets and the values under each key.
\<close>

fun py_eq :: "json \<Rightarrow> json \<Rightarrow> bool" where
  "py_eq JNull JNull = True"
| "py_eq (JBool a) (JBool b) = (a = b)"
| "py_eq (JBool a) (JInt j) = ((if a then 1 else 0) = j)"
| "py_eq (JInt i) (JBool b) = (i = (if b then 1 else 0))"
| "py_eq (JInt i) (JInt j) = (i = j)"
| "py_eq (JStr s) (JStr t) = (s = t)"
| "py_eq (JList xs) (JList ys) = list_all2 py_eq xs ys"
| "py_eq (JObj a) (JObj b) =
     (length a = length b \<and>
      list_all (\<lambda>kv. case map_of b (fst kv) of None \<Rightarrow> False | Some w \<Rightarrow> py_eq (snd kv) w) a)"
| "py_eq v w = False"

fun key_eq :: "key \<Rightarrow> key \<Rightarrow> bool" where
  "key_eq KNone KNone = True"
| "key_eq (KBool a) (KBool b) = (a = b)"
| "key_eq (KBool a) (KInt j) = ((if a then 1 else 0) = j)"
| "key_eq (KInt i) (KBool b) = (i = (if b then 1 else 0))"
| "key_eq (KInt i) (KInt j) = (i = j)"
| "key_eq (KStr s) (KStr t) = (s = t)"
| "key_eq k l = False"

subsection \<open>Dictionaries\<close>

text \<open>\<open>d.get(k)\<close> with a string key: the value, or nothing when the key is missing.\<close>

fun lookup :: "pydict \<Rightarrow> key \<Rightarrow> json option" where
  "lookup [] k = None"
| "lookup ((k', v) # d) k = (if key_eq k' k then Some v else lookup d k)"

text \<open>\<open>d.get(k, default)\<close>; \<open>d.get(k)\<close> is \<open>get d k JNull\<close>.\<close>

definition get :: "pydict \<Rightarrow> string \<Rightarrow> json \<Rightarrow> json" where
  "get d k dflt = (case lookup d (KStr k) of None \<Rightarrow> dflt | Some v \<Rightarrow> v)"

text \<open>\<open>k in d\<close>; \<open>d[k]\<close> raises \<open>KeyError\<close> exactly when it is false.\<close>

definition has_key :: "pydict \<Rightarrow> string \<Rightarrow> bool" where
  "has_key d k = (lookup d (KStr k) \<noteq> None)"

text \<open>
  \<open>d[k] = v\<close>: an existing key keeps its place (and its key object) and gets the new
  value; a new key goes to the end.
\<close>

fun setitem :: "key \<Rightarrow> json \<Rightarrow> pydict \<Rightarrow> pydict" where
  "setitem k v [] = [(k, v)]"
| "setitem k v ((k', v') # d) =
     (if key_eq k' k then (k', v) # d else (k', v') # setitem k v d)"

text \<open>\<open>a == b\<close> on two records.\<close>

definition dict_eq :: "pydict \<Rightarrow> pydict \<Rightarrow> bool" where
  "dict_eq a b =
     (length a = length b \<and>
      list_all (\<lambda>kv. case lookup b (fst kv) of None \<Rightarrow> False | Some w \<Rightarrow> py_eq (snd kv) w) a)"

text \<open>
  \<open>xs.remove(x)\<close> removes the first element \<open>y\<close> with \<open>y is x or y == x\<close>. The
  programs call it with an object \<open>x\<close> of the list itself; \<open>i\<close> is the position of that
  object, where the test \<open>y is x\<close> holds. (So an element is always found, and the
  \<open>ValueError\<close> of a failed \<open>remove\<close> cannot arise.)
\<close>

fun list_remove :: "nat \<Rightarrow> pydict \<Rightarrow> pydict list \<Rightarrow> pydict list" where
  "list_remove i x [] = []"
| "list_remove i x (y # ys) =
     (if i = 0 \<or> dict_eq y x then ys else y # list_remove (i - 1) x ys)"

subsection \<open>Strings\<close>

text \<open>
  The white space of \<open>str.strip()\<close> among the code points below 256: TAB to CR,
  FS to US, the space, NEL and the no-break space.
\<close>

definition isspace :: "char \<Rightarrow> bool" where
  "isspace c =
     (let n = (of_char c :: nat)
      in (9 \<le> n \<and> n \<le> 13) \<or> (28 \<le> n \<and> n \<le> 32) \<or> n = 133 \<or> n = 160)"

definition strip :: "string \<Rightarrow> string" where
  "strip s = rev (dropWhile isspace (rev (dropWhile isspace s)))"

text \<open>
  \<open>str.lower()\<close>: the capital letters A to Z and, among the code points from 128 to
  255, the capitals from 192 to 222 (without the multiplication sign 215) move up by 32.
\<close>

definition is_upper :: "char \<Rightarrow> bool" where
  "is_upper c =
     (let n = (of_char c :: nat)
      in (65 \<le> n \<and> n \<le> 90) \<or> (192 \<le> n \<and> n \<le> 222 \<and> n \<noteq> 215))"

definition lower_char :: "char \<Rightarrow> char" where
  "lower_char c = (if is_upper c then char_of ((of_char c :: nat) + 32) else c)"

definition lower :: "string \<Rightarrow> string" where
  "lower s = map lower_char s"

text \<open>\<open>v.lower()\<close> on a value that may not be a string.\<close>

fun py_lower :: "json \<Rightarrow> error + string" where
  "py_lower (JStr s) = Inr (lower s)"
| "py_lower v = Inl AttributeError"

text \<open>\<open>q in s\<close> on strings is \<^const>\<open>sublist\<close>: \<open>s\<close> has \<open>q\<close> as a contiguous part.\<close>


section \<open>The persisted file\<close>

text \<open>
  What the next \<open>load\<close> finds at the data file's path: no file, a file that cannot be
  opened or read (\<open>IOError\<close>), bytes that are not UTF-8, a text that is not JSON, or a
  JSON text; \<open>Content v\<close> stands for a text that \<open>json.load\<close> parses to \<open>v\<close>.
  The parser and the printer of the \<open>json\<close> module are the library's, not the
  programs': a file is modelled by the value it parses to.
\<close>

datatype data_file = NoFile | Unreadable | NotUTF8 | NotJSON | Content json

text \<open>
  What happens when the program writes: the write succeeds, \<open>open\<close> fails (the file
  stays as it was) or the write fails after \<open>open\<close> has truncated the file (a proper
  prefix of a JSON array, never a JSON text, is left behind).
\<close>

datatype medium = Writable | OpenFails | WriteFails

record disk =
  content :: data_file
  medium :: medium

subsection \<open>\<open>dict(entry)\<close>\<close>

text \<open>
  \<open>dict(x)\<close> copies a dictionary. From any other iterable it takes each element as a
  pair: the element must itself be iterable (else \<open>TypeError\<close>) with exactly two items
  (else \<open>ValueError\<close>), and the first item must be hashable (else \<open>TypeError\<close>). A
  string iterates as its characters, a dictionary as its keys. \<open>None\<close>, booleans and
  integers are not iterable.
\<close>

fun pair_of :: "json \<Rightarrow> error + (key \<times> json)" where
  "pair_of (JList [JNull, v]) = Inr (KNone, v)"
| "pair_of (JList [JBool b, v]) = Inr (KBool b, v)"
| "pair_of (JList [JInt i, v]) = Inr (KInt i, v)"
| "pair_of (JList [JStr s, v]) = Inr (KStr s, v)"
| "pair_of (JList [k, v]) = Inl TypeError"
| "pair_of (JList xs) = Inl ValueError"
| "pair_of (JStr [a, b]) = Inr (KStr [a], JStr [b])"
| "pair_of (JStr s) = Inl ValueError"
| "pair_of (JObj [(k1, v1), (k2, v2)]) = Inr (KStr k1, JStr k2)"
| "pair_of (JObj kvs) = Inl ValueError"
| "pair_of v = Inl TypeError"

fun dict_of_pairs :: "json list \<Rightarrow> pydict \<Rightarrow> error + pydict" where
  "dict_of_pairs [] d = Inr d"
| "dict_of_pairs (x # xs) d =
     (case pair_of x of
        Inl e \<Rightarrow> Inl e
      | Inr kv \<Rightarrow> dict_of_pairs xs (setitem (fst kv) (snd kv) d))"

fun py_dict :: "json \<Rightarrow> error + pydict" where
  "py_dict (JObj kvs) = Inr (map (\<lambda>kv. (KStr (fst kv), snd kv)) kvs)"
| "py_dict (JList xs) = dict_of_pairs xs []"
| "py_dict (JStr s) = dict_of_pairs (map (\<lambda>c. JStr [c]) s) []"
| "py_dict v = Inl TypeError"

text \<open>\<open>[dict(entry) for entry in data]\<close>: the first failing entry raises.\<close>

fun dict_each :: "json list \<Rightarrow> error + pydict list" where
  "dict_each [] = Inr []"
| "dict_each (entry # data) =
     (case py_dict entry of
        Inl e \<Rightarrow> Inl e
      | Inr d \<Rightarrow> (case dict_each data of Inl e \<Rightarrow> Inl e | Inr ds \<Rightarrow> Inr (d # ds)))"

subsection \<open>Load\<close>

text \<open>
  \<open>load_contacts\<close> (contact_manager.py) and \<open>load_tasks\<close> (todo_manager.py) have the
  same body. The \<open>except\<close> clause catches \<open>json.JSONDecodeError\<close> and \<open>IOError\<close>
  only: a \<open>UnicodeDecodeError\<close> from reading, and the \<open>TypeError\<close> or
  \<open>ValueError\<close> of \<open>dict(entry)\<close>, leave the function.
\<close>

definition load_contacts :: "data_file \<Rightarrow> error + pydict list" where
  "load_contacts f =
     (case f of
        NoFile \<Rightarrow> Inr []
      | Unreadable \<Rightarrow> Inr []
      | NotUTF8 \<Rightarrow> Inl UnicodeDecodeError
      | NotJSON \<Rightarrow> Inr []
      | Content data \<Rightarrow> (case data of JList entries \<Rightarrow> dict_each entries | _ \<Rightarrow> Inr []))"

definition load_tasks :: "data_file \<Rightarrow> error + pydict list" where
  "load_tasks f =
     (case f of
        NoFile \<Rightarrow> Inr []
      | Unreadable \<Rightarrow> Inr []
      | NotUTF8 \<Rightarrow> Inl UnicodeDecodeError
      | NotJSON \<Rightarrow> Inr []
      | Content data \<Rightarrow> (case data of JList tasks \<Rightarrow> dict_each tasks | _ \<Rightarrow> Inr []))"

subsection \<open>Save\<close>

text \<open>
  \<open>json.dump\<close> writes every key as a string: a string as it is, \<open>None\<close> as
  \<open>null\<close>, a boolean as \<open>true\<close> or \<open>false\<close>, an integer in decimal.
\<close>

fun show_nat :: "nat \<Rightarrow> string" where
  "show_nat n =
     (if n < 10 then [char_of (48 + n)] else show_nat (n div 10) @ [char_of (48 + n mod 10)])"

declare show_nat.simps [simp del]

definition show_int :: "int \<Rightarrow> string" where
  "show_int i = (if i < 0 then CHR ''-'' # show_nat (nat (- i)) else show_nat (nat i))"

fun key_str :: "key \<Rightarrow> string" where
  "key_str (KStr s) = s"
| "key_str KNone = ''null''"
| "key_str (KBool b) = (if b then ''true'' else ''false'')"
| "key_str (KInt i) = show_int i"

text \<open>
  The object that \<open>json.load\<close> reads back from the text written for one record: the
  members in the order written; where two keys were written as the same string, the
  later value under the earlier key's place.
\<close>

definition dumped_record :: "pydict \<Rightarrow> json" where
  "dumped_record d = JObj (foldl (\<lambda>acc kv. AList.update (key_str (fst kv)) (snd kv) acc) [] d)"

definition dumped :: "pydict list \<Rightarrow> json" where
  "dumped records = JList (map dumped_record records)"

text \<open>
  \<open>save_contacts\<close> and \<open>save_tasks\<close> have the same body: the whole store replaces the
  file; an \<open>IOError\<close> is printed and the session goes on.
\<close>

definition save_contacts :: "pydict list \<Rightarrow> disk \<Rightarrow> disk" where
  "save_contacts contacts dk =
     (case medium dk of
        Writable \<Rightarrow> dk\<lparr>content := Content (dumped contacts)\<rparr>
      | OpenFails \<Rightarrow> dk
      | WriteFails \<Rightarrow> dk\<lparr>content := NotJSON\<rparr>)"

definition save_tasks :: "pydict list \<Rightarrow> disk \<Rightarrow> disk" where
  "save_tasks tasks dk =
     (case medium dk of
        Writable \<Rightarrow> dk\<lparr>content := Content (dumped tasks)\<rparr>
      | OpenFails \<Rightarrow> dk
      | WriteFails \<Rightarrow> dk\<lparr>content := NotJSON\<rparr>)"

section \<open>Identifiers\<close>

text \<open>\<open>max(xs, default=d)\<close> on integers.\<close>

fun max_default :: "int list \<Rightarrow> int \<Rightarrow> int" where
  "max_default [] d = d"
| "max_default (x # xs) d = fold max xs x"

text \<open>
  \<open>generate_new_id\<close> is the same function in contact_manager.py and todo_manager.py.
  The identifiers it looks at are the values under \<open>"id"\<close> that are instances of
  \<open>int\<close>; the result of \<open>max(...) + 1\<close> is an \<open>int\<close>.
\<close>

definition existing_ids :: "pydict list \<Rightarrow> int list" where
  "existing_ids contacts =
     map (\<lambda>c. int_value (get c ''id'' (JInt 0)))
       (filter (\<lambda>c. isinstance_int (get c ''id'' JNull)) contacts)"

definition generate_new_id :: "pydict list \<Rightarrow> int" where
  "generate_new_id contacts =
     (if contacts = [] then 1 else max_default (existing_ids contacts) 0 + 1)"


section \<open>contact_manager.py\<close>

text \<open>
  Every function of the programs reads its inputs with \<open>input()\<close>. In the model the
  line typed at each prompt is a parameter of the function, named after the variable
  that receives it with \<open>_in\<close> appended; a prompt that is asked again until the answer is
  acceptable takes the list of the lines typed. Of what a function prints, the model
  keeps the line that reports the outcome.

  The functions return nothing and change the list \<open>contacts\<close> in place; the model
  returns the list and the disk after the call.
\<close>

definition add_contact ::
  "pydict list \<Rightarrow> disk \<Rightarrow> string \<Rightarrow> string \<Rightarrow> string \<Rightarrow> string \<Rightarrow> string \<times> pydict list \<times> disk"
where
  "add_contact contacts dk name_in phone_in email_in address_in =
     (let name = strip name_in; phone = strip phone_in;
          email = strip email_in; address = strip address_in
      in if name = [] \<or> phone = []
         then (''Name and phone number are required. Contact not added.'', contacts, dk)
         else
           let new_contact =
                 [(KStr ''id'', JInt (generate_new_id contacts)),
                  (KStr ''name'', JStr name),
                  (KStr ''phone'', JStr phone),
                  (KStr ''email'', JStr email),
                  (KStr ''address'', JStr address)];
               contacts' = contacts @ [new_contact]
           in (''Contact added successfully!'', contacts', save_contacts contacts' dk))"

subsection \<open>Search\<close>

text \<open>
  The condition of the list comprehension of \<open>search_contacts\<close>, for the lowered query:
  \<open>or\<close> does not evaluate the phone when the name matches; \<open>.lower()\<close> on a value that
  is not a string raises \<open>AttributeError\<close>.
\<close>

definition matches :: "string \<Rightarrow> pydict \<Rightarrow> error + bool" where
  "matches query c =
     (case py_lower (get c ''name'' (JStr [])) of
        Inl e \<Rightarrow> Inl e
      | Inr name \<Rightarrow>
          if sublist query name then Inr True
          else (case py_lower (get c ''phone'' (JStr [])) of
                  Inl e \<Rightarrow> Inl e
                | Inr phone \<Rightarrow> Inr (sublist query phone)))"

text \<open>
  The results of a search are the dictionaries of the store themselves, not copies:
  \<open>update_contact\<close> and \<open>delete_contact\<close> change the store through them. No dictionary
  stands twice in a store (\<open>load\<close> and \<open>add\<close> build a fresh one for every record), so
  the model names such an object by its position in the store and carries the position
  with the record.
\<close>

fun filter_matches :: "string \<Rightarrow> (nat \<times> pydict) list \<Rightarrow> error + (nat \<times> pydict) list" where
  "filter_matches query [] = Inr []"
| "filter_matches query (ic # rest) =
     (case matches query (snd ic) of
        Inl e \<Rightarrow> Inl e
      | Inr b \<Rightarrow>
          (case filter_matches query rest of
             Inl e \<Rightarrow> Inl e
           | Inr results \<Rightarrow> Inr (if b then ic # results else results)))"

text \<open>The loops that print \<open>contact['name']\<close> and \<open>contact['phone']\<close> of every result.\<close>

definition print_contacts :: "(nat \<times> pydict) list \<Rightarrow> error + unit" where
  "print_contacts results =
     (if list_all (\<lambda>ic. has_key (snd ic) ''name'' \<and> has_key (snd ic) ''phone'') results
      then Inr () else Inl KeyError)"

definition search_contacts ::
  "pydict list \<Rightarrow> string \<Rightarrow> error + (string \<times> (nat \<times> pydict) list)"
where
  "search_contacts contacts query_in =
     (if contacts = [] then Inr (''No contacts to search.'', [])
      else
        let query = lower (strip query_in)
        in case filter_matches query (enumerate 0 contacts) of
             Inl e \<Rightarrow> Inl e
           | Inr results \<Rightarrow>
               if results = [] then Inr (''No matching contacts found.'', [])
               else (case print_contacts results of
                       Inl e \<Rightarrow> Inl e
                     | Inr u \<Rightarrow> Inr (''Search Results:'', results)))"

subsection \<open>Selection\<close>

text \<open>
  \<open>str.isdigit()\<close> holds of a non-empty string of digits; below 256 the digits are 0 to
  9 and the superscripts two, three and one (178, 179, 185). \<open>int()\<close> reads the decimal
  digits and raises \<open>ValueError\<close> on a superscript. (The interpreter's limit on the
  length of a numeral is not modelled.)
\<close>

definition is_decimal :: "char \<Rightarrow> bool" where
  "is_decimal c = (let n = (of_char c :: nat) in 48 \<le> n \<and> n \<le> 57)"

definition isdigit :: "string \<Rightarrow> bool" where
  "isdigit s =
     (s \<noteq> [] \<and>
      list_all (\<lambda>c. is_decimal c \<or> (of_char c :: nat) = 178 \<or> (of_char c :: nat) = 179
                   \<or> (of_char c :: nat) = 185) s)"

definition py_int :: "string \<Rightarrow> error + int" where
  "py_int s =
     (if s \<noteq> [] \<and> list_all is_decimal s
      then Inr (int (foldl (\<lambda>acc c. 10 * acc + ((of_char c :: nat) - 48)) 0 s))
      else Inl ValueError)"

text \<open>
  The \<open>while True\<close> loop of \<open>select_contact\<close> over the lines typed; when they run out
  \<open>input()\<close> raises \<open>EOFError\<close>.
\<close>

fun select_loop :: "(nat \<times> pydict) list \<Rightarrow> string list \<Rightarrow> error + (nat \<times> pydict) option" where
  "select_loop contacts [] = Inl EOFError"
| "select_loop contacts (choice_in # later) =
     (let choice = strip choice_in
      in if choice = [] then Inr None
         else if isdigit choice
         then (case py_int choice of
                 Inl e \<Rightarrow> Inl e
               | Inr i \<Rightarrow>
                   if 1 \<le> i \<and> i \<le> int (length contacts)
                   then Inr (Some (contacts ! nat (i - 1)))
                   else select_loop contacts later)
         else select_loop contacts later)"

definition select_contact ::
  "(nat \<times> pydict) list \<Rightarrow> string list \<Rightarrow> error + (nat \<times> pydict) option"
where
  "select_contact contacts choices =
     (if contacts = [] then Inr None
      else (case print_contacts contacts of
              Inl e \<Rightarrow> Inl e
            | Inr u \<Rightarrow> select_loop contacts choices))"

subsection \<open>Update and delete\<close>

text \<open>\<open>if new: contact[field] = new\<close>\<close>

definition set_if :: "string \<Rightarrow> string \<Rightarrow> pydict \<Rightarrow> pydict" where
  "set_if field new d = (if new \<noteq> [] then setitem (KStr field) (JStr new) d else d)"

definition update_contact ::
  "pydict list \<Rightarrow> disk \<Rightarrow> string \<Rightarrow> string list \<Rightarrow> string \<Rightarrow> string \<Rightarrow> string \<Rightarrow> string
   \<Rightarrow> error + (string \<times> pydict list \<times> disk)"
where
  "update_contact contacts dk query_in choices name_in phone_in email_in address_in =
     (case search_contacts contacts query_in of
        Inl e \<Rightarrow> Inl e
      | Inr found \<Rightarrow>
          if snd found = [] then Inr (fst found, contacts, dk)
          else
            (case select_contact (snd found) choices of
               Inl e \<Rightarrow> Inl e
             | Inr None \<Rightarrow> Inr (''Update cancelled.'', contacts, dk)
             | Inr (Some sel) \<Rightarrow>
                 let contact = snd sel
                 in if contact = [] then Inr (''Update cancelled.'', contacts, dk)
                    else if \<not> (has_key contact ''name'' \<and> has_key contact ''phone'' \<and>
                               has_key contact ''email'' \<and> has_key contact ''address'')
                    then Inl KeyError
                    else
                      let new_name = strip name_in; new_phone = strip phone_in;
                          new_email = strip email_in; new_address = strip address_in;
                          contact' =
                            set_if ''address'' new_address
                              (set_if ''email'' new_email
                                (set_if ''phone'' new_phone
                                  (set_if ''name'' new_name contact)));
                          contacts' = contacts[fst sel := contact']
                      in Inr (''Contact updated successfully!'', contacts',
                              save_contacts contacts' dk)))"

definition delete_contact ::
  "pydict list \<Rightarrow> disk \<Rightarrow> string \<Rightarrow> string list \<Rightarrow> string
   \<Rightarrow> error + (string \<times> pydict list \<times> disk)"
where
  "delete_contact contacts dk query_in choices confirmation_in =
     (case search_contacts contacts query_in of
        Inl e \<Rightarrow> Inl e
      | Inr found \<Rightarrow>
          if snd found = [] then Inr (fst found, contacts, dk)
          else
            (case select_contact (snd found) choices of
               Inl e \<Rightarrow> Inl e
             | Inr None \<Rightarrow> Inr (''Deletion cancelled.'', contacts, dk)
             | Inr (Some sel) \<Rightarrow>
                 let contact = snd sel
                 in if contact = [] then Inr (''Deletion cancelled.'', contacts, dk)
                    else if \<not> has_key contact ''name'' then Inl KeyError
                    else
                      let confirmation = lower (strip confirmation_in)
                      in if confirmation = ''y'' \<or> confirmation = ''yes''
                         then
                           let contacts' = list_remove (fst sel) contact contacts
                           in Inr (''Contact deleted successfully!'', contacts',
                                   save_contacts contacts' dk)
                         else Inr (''Deletion aborted.'', contacts, dk)))"


section \<open>todo_manager.py\<close>

subsection \<open>Due dates\<close>

text \<open>
  \<open>datetime.strptime(s, "%Y-%m-%d")\<close> raises \<open>ValueError\<close> unless \<open>s\<close> is four
  digits, a hyphen, a month written \<open>1[0-2]|0[1-9]|[1-9]\<close>, a hyphen and a day written
  \<open>3[01]|[12]\d|0[1-9]|[1-9]| [1-9]\<close>, and the three numbers are a date of the
  calendar from the year 1 on. The programs only ask whether it raises.
\<close>

definition digit_of :: "char \<Rightarrow> nat" where
  "digit_of c = (of_char c :: nat) - 48"

definition nonzero_digit :: "char \<Rightarrow> bool" where
  "nonzero_digit c = (is_decimal c \<and> c \<noteq> CHR ''0'')"

definition month_of :: "string \<Rightarrow> nat option" where
  "month_of s =
     (case s of
        [a] \<Rightarrow> if nonzero_digit a then Some (digit_of a) else None
      | [a, b] \<Rightarrow>
          if a = CHR ''1'' \<and> (b = CHR ''0'' \<or> b = CHR ''1'' \<or> b = CHR ''2'')
          then Some (10 + digit_of b)
          else if a = CHR ''0'' \<and> nonzero_digit b then Some (digit_of b)
          else None
      | _ \<Rightarrow> None)"

definition day_of :: "string \<Rightarrow> nat option" where
  "day_of s =
     (case s of
        [a] \<Rightarrow> if nonzero_digit a then Some (digit_of a) else None
      | [a, b] \<Rightarrow>
          if a = CHR ''3'' \<and> (b = CHR ''0'' \<or> b = CHR ''1'') then Some (30 + digit_of b)
          else if (a = CHR ''1'' \<or> a = CHR ''2'') \<and> is_decimal b
          then Some (10 * digit_of a + digit_of b)
          else if (a = CHR ''0'' \<or> a = CHR '' '') \<and> nonzero_digit b then Some (digit_of b)
          else None
      | _ \<Rightarrow> None)"

definition leap_year :: "nat \<Rightarrow> bool" where
  "leap_year y = (y mod 4 = 0 \<and> (y mod 100 \<noteq> 0 \<or> y mod 400 = 0))"

definition days_in_month :: "nat \<Rightarrow> nat \<Rightarrow> nat" where
  "days_in_month y m =
     (if m = 2 then (if leap_year y then 29 else 28)
      else if m = 4 \<or> m = 6 \<or> m = 9 \<or> m = 11 then 30 else 31)"

definition strptime_ok :: "string \<Rightarrow> bool" where
  "strptime_ok s =
     (case s of
        y1 # y2 # y3 # y4 # h # rest \<Rightarrow>
          is_decimal y1 \<and> is_decimal y2 \<and> is_decimal y3 \<and> is_decimal y4 \<and> h = CHR ''-'' \<and>
          (case dropWhile (\<lambda>c. c \<noteq> CHR ''-'') rest of
             [] \<Rightarrow> False
           | h' # day_text \<Rightarrow>
               (case (month_of (takeWhile (\<lambda>c. c \<noteq> CHR ''-'') rest), day_of day_text) of
                  (Some m, Some d) \<Rightarrow>
                    (let y = 1000 * digit_of y1 + 100 * digit_of y2 + 10 * digit_of y3
                             + digit_of y4
                     in 1 \<le> y \<and> d \<le> days_in_month y m)
                | _ \<Rightarrow> False))
      | _ \<Rightarrow> False)"

subsection \<open>Operations\<close>

definition add_task ::
  "pydict list \<Rightarrow> disk \<Rightarrow> string \<Rightarrow> string \<Rightarrow> string \<Rightarrow> string \<times> pydict list \<times> disk"
where
  "add_task tasks dk description_in due_date_in notes_in =
     (let description = strip description_in
      in if description = [] then (''Description cannot be empty. Task not added.'', tasks, dk)
         else
           let due_date_input = strip due_date_in;
               due_date =
                 (if due_date_input \<noteq> [] \<and> strptime_ok due_date_input
                  then due_date_input else []);
               notes = strip notes_in;
               new_task =
                 [(KStr ''id'', JInt (generate_new_id tasks)),
                  (KStr ''description'', JStr description),
                  (KStr ''completed'', JBool False),
                  (KStr ''due_date'', JStr due_date),
                  (KStr ''notes'', JStr notes)];
               tasks' = tasks @ [new_task]
           in (''Task added successfully!'', tasks', save_tasks tasks' dk))"

text \<open>
  \<open>list_tasks\<close> prints \<open>task['id']\<close> and \<open>task['description']\<close> of every task
  (\<open>KeyError\<close> when one is missing); on an empty list it prints \<open>No tasks found.\<close>
\<close>

definition list_tasks :: "pydict list \<Rightarrow> error + unit" where
  "list_tasks tasks =
     (if list_all (\<lambda>task. has_key task ''id'' \<and> has_key task ''description'') tasks
      then Inr () else Inl KeyError)"

text \<open>
  \<open>find_task_by_id\<close> returns the first task whose \<open>t.get("id") == task_id\<close>, the
  dictionary of the store itself; the model gives its position with it.
\<close>

definition find_task_by_id :: "pydict list \<Rightarrow> int \<Rightarrow> (nat \<times> pydict) option" where
  "find_task_by_id tasks task_id =
     find (\<lambda>it. py_eq (get (snd it) ''id'' JNull) (JInt task_id)) (enumerate 0 tasks)"

text \<open>
  The identifier typed is read with \<open>int(input(...))\<close>; \<open>id_in\<close> is the integer read,
  or \<open>None\<close> when \<open>int\<close> raises \<open>ValueError\<close>.
\<close>

definition update_task ::
  "pydict list \<Rightarrow> disk \<Rightarrow> int option \<Rightarrow> string \<Rightarrow> string \<Rightarrow> string
   \<Rightarrow> error + (string \<times> pydict list \<times> disk)"
where
  "update_task tasks dk id_in description_in due_in notes_in =
     (case list_tasks tasks of
        Inl e \<Rightarrow> Inl e
      | Inr u \<Rightarrow>
          if tasks = [] then Inr (''No tasks found.'', tasks, dk)
          else
            (case id_in of
               None \<Rightarrow> Inr (''Invalid input. Update cancelled.'', tasks, dk)
             | Some task_id \<Rightarrow>
                 if task_id = 0 then Inr (''Update cancelled.'', tasks, dk)
                 else
                   (case find_task_by_id tasks task_id of
                      None \<Rightarrow> Inr (''Task not found.'', tasks, dk)
                    | Some sel \<Rightarrow>
                        let task = snd sel
                        in if task = [] then Inr (''Task not found.'', tasks, dk)
                           else if \<not> (has_key task ''description'' \<and> has_key task ''due_date''
                                      \<and> has_key task ''notes'')
                           then Inl KeyError
                           else
                             let new_description = strip description_in;
                                 new_due = strip due_in;
                                 new_notes = strip notes_in;
                                 task1 = set_if ''description'' new_description task;
                                 task2 =
                                   (if new_due \<noteq> [] \<and> strptime_ok new_due
                                    then setitem (KStr ''due_date'') (JStr new_due) task1
                                    else task1);
                                 task' = set_if ''notes'' new_notes task2;
                                 tasks' = tasks[fst sel := task']
                             in Inr (''Task updated successfully!'', tasks',
                                     save_tasks tasks' dk))))"

definition toggle_completion ::
  "pydict list \<Rightarrow> disk \<Rightarrow> int option \<Rightarrow> error + (string \<times> pydict list \<times> disk)"
where
  "toggle_completion tasks dk id_in =
     (case list_tasks tasks of
        Inl e \<Rightarrow> Inl e
      | Inr u \<Rightarrow>
          if tasks = [] then Inr (''No tasks found.'', tasks, dk)
          else
            (case id_in of
               None \<Rightarrow> Inr (''Invalid input. Operation cancelled.'', tasks, dk)
             | Some task_id \<Rightarrow>
                 if task_id = 0 then Inr (''Operation cancelled.'', tasks, dk)
                 else
                   (case find_task_by_id tasks task_id of
                      None \<Rightarrow> Inr (''Task not found.'', tasks, dk)
                    | Some sel \<Rightarrow>
                        let task = snd sel
                        in if task = [] then Inr (''Task not found.'', tasks, dk)
                           else
                             let completed = \<not> truthy (get task ''completed'' (JBool False));
                                 task' = setitem (KStr ''completed'') (JBool completed) task;
                                 tasks' = tasks[fst sel := task']
                             in Inr (if completed then ''Task marked as completed.''
                                     else ''Task marked as pending.'',
                                     tasks', save_tasks tasks' dk))))"

definition delete_task ::
  "pydict list \<Rightarrow> disk \<Rightarrow> int option \<Rightarrow> string \<Rightarrow> error + (string \<times> pydict list \<times> disk)"
where
  "delete_task tasks dk id_in confirm_in =
     (case list_tasks tasks of
        Inl e \<Rightarrow> Inl e
      | Inr u \<Rightarrow>
          if tasks = [] then Inr (''No tasks found.'', tasks, dk)
          else
            (case id_in of
               None \<Rightarrow> Inr (''Invalid input. Deletion cancelled.'', tasks, dk)
             | Some task_id \<Rightarrow>
                 if task_id = 0 then Inr (''Deletion cancelled.'', tasks, dk)
                 else
                   (case find_task_by_id tasks task_id of
                      None \<Rightarrow> Inr (''Task not found.'', tasks, dk)
                    | Some sel \<Rightarrow>
                        let task = snd sel
                        in if task = [] then Inr (''Task not found.'', tasks, dk)
                           else
                             let confirm = lower (strip confirm_in)
                             in if confirm = ''y'' \<or> confirm = ''yes''
                                then
                                  let tasks' = list_remove (fst sel) task tasks
                                  in Inr (''Task deleted successfully!'', tasks',
                                          save_tasks tasks' dk)
                                else Inr (''Deletion aborted.'', tasks, dk))))"

section \<open>password_generator.py\<close>

definition ascii_lowercase :: string where
  "ascii_lowercase = ''abcdefghijklmnopqrstuvwxyz''"

definition ascii_uppercase :: string where
  "ascii_uppercase = ''ABCDEFGHIJKLMNOPQRSTUVWXYZ''"

definition digits :: string where
  "digits = ''0123456789''"

text \<open>
  \<open>string.punctuation\<close>: the 32 printable ASCII characters that are neither letters
  nor digits nor the space, in the order of their codes (33 to 47, 58 to 64, 91 to 96,
  123 to 126).
\<close>

definition punctuation :: string where
  "punctuation = map char_of ([33..<48] @ [58..<65] @ [91..<97] @ [123..<127] :: nat list)"

text \<open>
  \<open>secure_random.choice(characters)\<close> returns \<open>characters[k]\<close> for an index \<open>k\<close> below
  the length that the operating system's randomness decides. The source of randomness is
  the parameter \<open>rnd\<close>: draw number \<open>j\<close> yields the index \<open>rnd j mod len(characters)\<close>,
  so every function \<open>rnd\<close> is a possible run and every run is some \<open>rnd\<close>.
\<close>

definition generate_password ::
  "int \<Rightarrow> bool \<Rightarrow> bool \<Rightarrow> bool \<Rightarrow> bool \<Rightarrow> (nat \<Rightarrow> nat) \<Rightarrow> error + string"
where
  "generate_password len use_uppercase use_lowercase use_digits use_symbols rnd =
     (if len \<le> 0 then Inl ValueError
      else
        let characters =
              (if use_lowercase then ascii_lowercase else []) @
              (if use_uppercase then ascii_uppercase else []) @
              (if use_digits then digits else []) @
              (if use_symbols then punctuation else [])
        in if characters = [] then Inl ValueError
           else Inr (map (\<lambda>j. characters ! (rnd j mod length characters)) [0..<nat len]))"

section \<open>Notions used in the statements\<close>

text \<open>The values under \<open>"id"\<close>, record by record.\<close>

definition ids :: "pydict list \<Rightarrow> json list" where
  "ids store = map (\<lambda>r. get r ''id'' JNull) store"

text \<open>
  Choosing \<open>Add\<close> in the menu once for every element of a list of answers: the main loop
  passes the same list object to every call.
\<close>

fun add_contacts ::
  "pydict list \<Rightarrow> disk \<Rightarrow> (string \<times> string \<times> string \<times> string) list \<Rightarrow> pydict list \<times> disk"
where
  "add_contacts contacts dk [] = (contacts, dk)"
| "add_contacts contacts dk (inp # inps) =
     (case inp of (name_in, phone_in, email_in, address_in) \<Rightarrow>
        (case add_contact contacts dk name_in phone_in email_in address_in of
           (msg, contacts', dk') \<Rightarrow> add_contacts contacts' dk' inps))"

fun add_tasks ::
  "pydict list \<Rightarrow> disk \<Rightarrow> (string \<times> string \<times> string) list \<Rightarrow> pydict list \<times> disk"
where
  "add_tasks tasks dk [] = (tasks, dk)"
| "add_tasks tasks dk (inp # inps) =
     (case inp of (description_in, due_date_in, notes_in) \<Rightarrow>
        (case add_task tasks dk description_in due_date_in notes_in of
           (msg, tasks', dk') \<Rightarrow> add_tasks tasks' dk' inps))"

text \<open>The assignment \<open>task['completed'] = not task.get('completed', False)\<close> on one task.\<close>

definition toggled :: "pydict \<Rightarrow> pydict" where
  "toggled task =
     setitem (KStr ''completed'') (JBool (\<not> truthy (get task ''completed'' (JBool False)))) task"











subsection \<open>Example stores\<close>

definition disk0 :: disk where
  "disk0 = \<lparr>content = NoFile, medium = Writable\<rparr>"

definition three_inputs :: "(string \<times> string \<times> string) list" where
  "three_inputs =
     [(''buy milk'', ''2024-02-29'', ''''), (''call Ann'', '''', ''soon''),
      (''pay rent'', '''', '''')]"

definition two_tasks :: "pydict list" where
  "two_tasks =
     [[(KStr ''id'', JInt 1), (KStr ''description'', JStr ''buy milk''),
       (KStr ''completed'', JBool False), (KStr ''due_date'', JStr ''2024-02-29''),
       (KStr ''notes'', JStr '''')],
      [(KStr ''id'', JInt 2), (KStr ''description'', JStr ''call Ann''),
       (KStr ''completed'', JBool False), (KStr ''due_date'', JStr ''''),
       (KStr ''notes'', JStr ''soon'')]]"


definition bob_contacts :: "pydict list" where
  "bob_contacts =
     [[(KStr ''id'', JInt 1), (KStr ''name'', JStr ''Jim Bob''),
       (KStr ''phone'', JStr ''555 0100''), (KStr ''email'', JStr ''''),
       (KStr ''address'', JStr '''')],
      [(KStr ''id'', JInt 2), (KStr ''name'', JStr ''bobby''),
       (KStr ''phone'', JStr ''555 0199''), (KStr ''email'', JStr ''b@example.org''),
       (KStr ''address'', JStr '''')]]"

definition two_inputs :: "(string \<times> string \<times> string \<times> string) list" where
  "two_inputs =
     [(''Ann'', ''555 0101'', '''', ''''), ('' Cy '', ''555 0102'', ''c@example.org'', '''')]"

section \<open>Auxiliary lemmas\<close>

lemma key_eq_KStr_right [simp]: "key_eq k (KStr s) = (k = KStr s)"
  by (cases k) auto

lemma key_eq_KStr_left [simp]: "key_eq (KStr s) k = (k = KStr s)"
  by (cases k) auto

lemma lookup_setitem_str:
  "lookup (setitem (KStr s) v d) k = (if k = KStr s then Some v else lookup d k)"
  by (induction d) auto

lemma setitem_same: "lookup d (KStr s) = Some v \<Longrightarrow> setitem (KStr s) v d = d"
  by (induction d) (auto split: if_splits)

lemma setitem_setitem: "setitem (KStr s) w (setitem (KStr s) v d) = setitem (KStr s) w d"
  by (induction d) auto

lemma setitem_not_Nil [simp]: "setitem k v d \<noteq> []"
  by (cases d) (auto split: if_splits)

lemma get_setitem:
  "get (setitem (KStr s) v d) f dflt = (if f = s then v else get d f dflt)"
  by (simp add: get_def lookup_setitem_str)

lemma has_key_setitem:
  "has_key (setitem (KStr s) v d) f = (f = s \<or> has_key d f)"
  by (simp add: has_key_def lookup_setitem_str)

lemma find_enumerate:
  "find (\<lambda>p. Q (snd p)) (enumerate 0 xs) = Some (i, x) \<longleftrightarrow>
     i < length xs \<and> x = xs ! i \<and> Q x \<and> (\<forall>j<i. \<not> Q (xs ! j))"
  by (auto simp: find_Some_iff nth_enumerate_eq)

lemma find_enumerate_None:
  "find (\<lambda>p. Q (snd p)) (enumerate k xs) = None \<longleftrightarrow> (\<forall>x\<in>set xs. \<not> Q x)"
  by (induction xs arbitrary: k) auto

lemma find_task_by_id_Some:
  "find_task_by_id tasks n = Some (i, t) \<longleftrightarrow>
     i < length tasks \<and> t = tasks ! i \<and> py_eq (get t ''id'' JNull) (JInt n) \<and>
     (\<forall>j<i. \<not> py_eq (get (tasks ! j) ''id'' JNull) (JInt n))"
  unfolding find_task_by_id_def by (rule find_enumerate)

lemma find_task_by_id_None:
  "find_task_by_id tasks n = None \<longleftrightarrow> (\<forall>t\<in>set tasks. \<not> py_eq (get t ''id'' JNull) (JInt n))"
  unfolding find_task_by_id_def by (rule find_enumerate_None)

lemma found_not_empty:
  "py_eq (get t ''id'' JNull) (JInt n) \<Longrightarrow> t \<noteq> []"
  by (auto simp: get_def)

lemma list_tasks_update:
  assumes "list_tasks tasks = Inr ()" "i < length tasks"
    "has_key t' ''id''" "has_key t' ''description''"
  shows "list_tasks (tasks[i := t']) = Inr ()"
  using assms
  by (auto simp: list_tasks_def list_all_iff split: if_splits dest!: set_update_subset_insert[THEN subsetD])

lemma list_tasks_nth:
  "list_tasks tasks = Inr () \<Longrightarrow> i < length tasks \<Longrightarrow>
     has_key (tasks ! i) ''id'' \<and> has_key (tasks ! i) ''description''"
  by (auto simp: list_tasks_def list_all_iff split: if_splits)

lemma find_task_by_id_update:
  assumes "find_task_by_id tasks n = Some (i, t)" "get t' ''id'' JNull = get t ''id'' JNull"
  shows "find_task_by_id (tasks[i := t']) n = Some (i, t')"
  using assms by (auto simp: find_task_by_id_Some)

lemma toggle_found:
  assumes "list_tasks tasks = Inr ()" "n \<noteq> 0" "find_task_by_id tasks n = Some (i, t)"
  shows "\<exists>msg. toggle_completion tasks dk (Some n) =
           Inr (msg, tasks[i := toggled t], save_tasks (tasks[i := toggled t]) dk)"
proof -
  from assms(3) have "i < length tasks" "t = tasks ! i" "py_eq (get t ''id'' JNull) (JInt n)"
    by (auto simp: find_task_by_id_Some)
  then have "tasks \<noteq> []" "t \<noteq> []" by (auto dest: found_not_empty)
  then show ?thesis using assms
    by (simp add: toggle_completion_def Let_def toggled_def)
qed

lemma toggled_toggled_lookup:
  "k \<noteq> KStr ''completed'' \<Longrightarrow> lookup (toggled (toggled t)) k = lookup t k"
  by (simp add: toggled_def lookup_setitem_str)

lemma toggled_toggled_status:
  "truthy (get (toggled (toggled t)) ''completed'' (JBool False)) =
   truthy (get t ''completed'' (JBool False))"
  by (simp add: toggled_def get_setitem)

lemma toggled_toggled_bool:
  "lookup t (KStr ''completed'') = Some (JBool b) \<Longrightarrow> toggled (toggled t) = t"
proof -
  assume b: "lookup t (KStr ''completed'') = Some (JBool b)"
  then have "get t ''completed'' (JBool False) = JBool b" by (simp add: get_def)
  then show ?thesis using b by (simp add: toggled_def get_setitem setitem_setitem setitem_same)
qed

lemma strip_Nil [simp]: "strip [] = []"
  by (simp add: strip_def)

lemma filter_matches_subset:
  "filter_matches q xs = Inr rs \<Longrightarrow> set rs \<subseteq> set xs"
  by (induction xs arbitrary: rs) (auto split: sum.splits if_splits)

lemma search_contacts_hits:
  assumes "search_contacts contacts query_in = Inr (msg, hits)" "(i, c) \<in> set hits"
  shows "i < length contacts \<and> c = contacts ! i"
proof -
  from assms obtain q where "filter_matches q (enumerate 0 contacts) = Inr hits"
    by (auto simp: search_contacts_def Let_def split: if_splits sum.splits)
  from filter_matches_subset[OF this] assms(2) have "(i, c) \<in> set (enumerate 0 contacts)"
    by blast
  then show ?thesis by (simp add: in_set_enumerate_eq)
qed

lemma select_loop_mem:
  "select_loop hits choices = Inr (Some sel) \<Longrightarrow> sel \<in> set hits"
proof (induction choices)
  case Nil
  then show ?case by simp
next
  case (Cons ch choices)
  then show ?case
    by (auto simp: Let_def split: if_splits sum.splits intro!: nth_mem)
qed

lemma select_contact_mem:
  "select_contact hits choices = Inr (Some sel) \<Longrightarrow> sel \<in> set hits"
  by (auto simp: select_contact_def split: if_splits sum.splits dest: select_loop_mem)

lemma lookup_set_if:
  "lookup (set_if f new d) k =
     (if new \<noteq> [] \<and> k = KStr f then Some (JStr new) else lookup d k)"
  by (simp add: set_if_def lookup_setitem_str)

lemma set_if_blank [simp]: "set_if f [] d = d"
  by (simp add: set_if_def)

lemma update_contact_result:
  assumes "update_contact contacts dk query_in choices name_in phone_in email_in address_in =
             Inr (msg, contacts', dk')"
  shows "contacts' = contacts \<or>
         (\<exists>i<length contacts. contacts' = contacts[i :=
             set_if ''address'' (strip address_in)
               (set_if ''email'' (strip email_in)
                 (set_if ''phone'' (strip phone_in)
                   (set_if ''name'' (strip name_in) (contacts ! i))))])"
proof (cases "search_contacts contacts query_in")
  case (Inl e)
  with assms show ?thesis by (simp add: update_contact_def)
next
  case (Inr found)
  obtain m hits where found: "found = (m, hits)" by (cases found)
  show ?thesis
  proof (cases "select_contact hits choices")
    case (Inl e)
    with assms Inr found show ?thesis
      by (simp add: update_contact_def split: if_splits)
  next
    case sel: (Inr r)
    show ?thesis
    proof (cases r)
      case None
      with assms Inr found sel show ?thesis
        by (simp add: update_contact_def split: if_splits)
    next
      case (Some s)
      obtain i c where s: "s = (i, c)" by (cases s)
      from sel Some s have "(i, c) \<in> set hits" by (auto dest: select_contact_mem)
      with Inr found have "i < length contacts" "c = contacts ! i"
        using search_contacts_hits by blast+
      with assms Inr found sel Some s show ?thesis
        by (auto simp: update_contact_def Let_def split: if_splits)
    qed
  qed
qed

lemma update_task_result:
  assumes "update_task tasks dk id_in description_in due_in notes_in = Inr (msg, tasks', dk')"
  shows "tasks' = tasks \<or>
         (\<exists>i<length tasks. tasks' = tasks[i :=
             set_if ''notes'' (strip notes_in)
               ((if strip due_in \<noteq> [] \<and> strptime_ok (strip due_in)
                 then setitem (KStr ''due_date'') (JStr (strip due_in))
                 else (\<lambda>d. d))
                 (set_if ''description'' (strip description_in) (tasks ! i)))])"
proof (cases "\<exists>n i t. id_in = Some n \<and> find_task_by_id tasks n = Some (i, t)")
  case True
  then obtain n i t where n: "id_in = Some n" "find_task_by_id tasks n = Some (i, t)" by blast
  then have "i < length tasks" "t = tasks ! i" by (auto simp: find_task_by_id_Some)
  with assms n show ?thesis
    by (auto simp: update_task_def Let_def split: if_splits sum.splits)
next
  case False
  with assms show ?thesis
    by (auto simp: update_task_def Let_def split: if_splits sum.splits option.splits)
qed

lemma max_default_eq: "max_default xs d = (if xs = [] then d else Max (set xs))"
  by (cases xs) (simp_all add: Max.set_eq_fold[symmetric])

lemma existing_ids_Nil [simp]: "existing_ids [] = []"
  by (simp add: existing_ids_def)

lemma generate_new_id_eq:
  "generate_new_id store =
     (if existing_ids store = [] then 1 else Max (set (existing_ids store)) + 1)"
  by (cases "store = []") (simp_all add: generate_new_id_def max_default_eq)

lemma existing_ids_less:
  "i \<in> set (existing_ids store) \<Longrightarrow> i < generate_new_id store"
proof -
  assume i: "i \<in> set (existing_ids store)"
  then have "i \<le> Max (set (existing_ids store))" by simp
  with i show ?thesis by (auto simp: generate_new_id_eq)
qed

lemma get_id_default:
  "isinstance_int (get r k JNull) \<Longrightarrow> get r k (JInt 0) = get r k JNull"
  by (auto simp: get_def split: option.splits)




lemma existing_ids_snoc:
  "get r ''id'' JNull = JInt g \<Longrightarrow> existing_ids (store @ [r]) = existing_ids store @ [g]"
  by (simp add: existing_ids_def get_id_default)

lemma generate_new_id_snoc:
  assumes "get r ''id'' JNull = JInt (generate_new_id store)"
  shows "generate_new_id (store @ [r]) = generate_new_id store + 1"
proof -
  let ?g = "generate_new_id store"
  have "Max (set (existing_ids store @ [?g])) = ?g"
    by (rule Max_eqI) (auto dest: existing_ids_less less_imp_le)
  then show ?thesis
    by (simp add: generate_new_id_eq[of "store @ [r]"] existing_ids_snoc[OF assms])
qed

lemma count_up:
  "JInt g # map (\<lambda>k. JInt (g + 1 + int k)) [0..<n] = map (\<lambda>k. JInt (g + int k)) [0..<Suc n]"
  by (induction n) simp_all

lemma add_contacts_ids:
  assumes "\<forall>inp\<in>set inps. strip (fst inp) \<noteq> [] \<and> strip (fst (snd inp)) \<noteq> []"
  shows "\<exists>news. fst (add_contacts contacts dk inps) = contacts @ news \<and>
           ids news = map (\<lambda>k. JInt (generate_new_id contacts + int k)) [0..<length inps]"
  using assms
proof (induction inps arbitrary: contacts dk)
  case Nil
  then show ?case by (simp add: ids_def)
next
  case (Cons inp inps)
  obtain name_in phone_in email_in address_in where
    inp: "inp = (name_in, phone_in, email_in, address_in)" by (cases inp) auto
  let ?g = "generate_new_id contacts"
  from Cons.prems inp have ok: "strip name_in \<noteq> []" "strip phone_in \<noteq> []" by auto
  then obtain r where r:
    "add_contact contacts dk name_in phone_in email_in address_in =
       (''Contact added successfully!'', contacts @ [r], save_contacts (contacts @ [r]) dk)"
    "get r ''id'' JNull = JInt ?g"
    by (simp add: add_contact_def Let_def get_def)
  from Cons.prems have "\<forall>inp\<in>set inps. strip (fst inp) \<noteq> [] \<and> strip (fst (snd inp)) \<noteq> []"
    by simp
  from Cons.IH[OF this, of "contacts @ [r]" "save_contacts (contacts @ [r]) dk"]
  obtain news where news:
    "fst (add_contacts (contacts @ [r]) (save_contacts (contacts @ [r]) dk) inps) =
       (contacts @ [r]) @ news"
    "ids news = map (\<lambda>k. JInt (generate_new_id (contacts @ [r]) + int k)) [0..<length inps]"
    by blast
  have "fst (add_contacts contacts dk (inp # inps)) = contacts @ (r # news)"
    using inp r(1) news(1) by simp
  moreover have "ids (r # news) = map (\<lambda>k. JInt (?g + int k)) [0..<length (inp # inps)]"
    using news(2) r(2) count_up[of ?g "length inps"]
    by (simp add: ids_def generate_new_id_snoc[OF r(2)] del: upt_Suc)
  ultimately show ?case by blast
qed

lemma add_tasks_ids:
  assumes "\<forall>inp\<in>set inps. strip (fst inp) \<noteq> []"
  shows "\<exists>news. fst (add_tasks tasks dk inps) = tasks @ news \<and>
           ids news = map (\<lambda>k. JInt (generate_new_id tasks + int k)) [0..<length inps]"
  using assms
proof (induction inps arbitrary: tasks dk)
  case Nil
  then show ?case by (simp add: ids_def)
next
  case (Cons inp inps)
  obtain description_in due_date_in notes_in where
    inp: "inp = (description_in, due_date_in, notes_in)" by (cases inp) auto
  let ?g = "generate_new_id tasks"
  from Cons.prems inp have ok: "strip description_in \<noteq> []" by auto
  then obtain r where r:
    "add_task tasks dk description_in due_date_in notes_in =
       (''Task added successfully!'', tasks @ [r], save_tasks (tasks @ [r]) dk)"
    "get r ''id'' JNull = JInt ?g"
    by (simp add: add_task_def Let_def get_def)
  from Cons.prems have "\<forall>inp\<in>set inps. strip (fst inp) \<noteq> []"
    by simp
  from Cons.IH[OF this, of "tasks @ [r]" "save_tasks (tasks @ [r]) dk"]
  obtain news where news:
    "fst (add_tasks (tasks @ [r]) (save_tasks (tasks @ [r]) dk) inps) = (tasks @ [r]) @ news"
    "ids news = map (\<lambda>k. JInt (generate_new_id (tasks @ [r]) + int k)) [0..<length inps]"
    by blast
  have "fst (add_tasks tasks dk (inp # inps)) = tasks @ (r # news)"
    using inp r(1) news(1) by simp
  moreover have "ids (r # news) = map (\<lambda>k. JInt (?g + int k)) [0..<length (inp # inps)]"
    using news(2) r(2) count_up[of ?g "length inps"]
    by (simp add: ids_def generate_new_id_snoc[OF r(2)] del: upt_Suc)
  ultimately show ?case by blast
qed

lemma counting_ids:
  assumes "ids news = map (\<lambda>k. JInt (g + int k)) [0..<n]"
  shows "length news = n \<and> sorted_wrt (<) (map int_value (ids news)) \<and> distinct (ids news)"
proof -
  have len: "length news = n" using arg_cong[OF assms, of length] by (simp add: ids_def)
  have "map int_value (ids news) = map (\<lambda>k. g + int k) [0..<n]"
    by (simp add: assms comp_def)
  moreover have "sorted_wrt (<) (map (\<lambda>k. g + int k) [0..<n])"
    by (simp add: sorted_wrt_map sorted_wrt_iff_nth_less)
  moreover have "distinct (map (\<lambda>k. JInt (g + int k)) [0..<n])"
    by (simp add: distinct_map inj_on_def)
  ultimately show ?thesis using len assms by (simp add: comp_def)
qed











lemma lower_Nil_iff [simp]: "lower q = [] \<longleftrightarrow> q = []"
  by (simp add: lower_def)








lemma charsets_nonempty:
  "ascii_lowercase \<noteq> []" "ascii_uppercase \<noteq> []" "digits \<noteq> []" "punctuation \<noteq> []"
  by (simp_all add: ascii_lowercase_def ascii_uppercase_def digits_def punctuation_def upt_rec)

section \<open>The claims\<close>

subsection \<open>C1: new identifiers\<close>




subsection \<open>C2: loading a malformed file\<close>

text \<open>
  Claim C2 says that a file whose content is valid JSON but not a well-formed list of
  records loads as the empty store, with no error leaving the function. On the file
  content \<open>[1]\<close> both \<open>load_contacts\<close> and \<open>load_tasks\<close> raise \<open>TypeError\<close>:
  \<open>dict(1)\<close> fails and the \<open>except\<close> clause does not catch it.
\<close>

theorem load_list_of_non_records_raises:
  "load_contacts (Content (JList [JInt 1])) = Inl TypeError \<and>
   load_tasks (Content (JList [JInt 1])) = Inl TypeError"
  by (simp add: load_contacts_def load_tasks_def)

text \<open>
  What does hold: a missing or unreadable file, a text that is not JSON and a JSON value
  that is not a list load as the empty store. Bytes that are not UTF-8 raise too, and a
  list of lists of pairs loads as a store that is not empty.
\<close>

lemma load_fallback:
  "load_contacts NoFile = Inr []" "load_contacts Unreadable = Inr []"
  "load_contacts NotJSON = Inr []"
  "load_contacts (Content JNull) = Inr []" "load_contacts (Content (JBool b)) = Inr []"
  "load_contacts (Content (JInt i)) = Inr []" "load_contacts (Content (JStr s)) = Inr []"
  "load_contacts (Content (JObj kvs)) = Inr []"
  "load_tasks f = load_contacts f"
  by (simp_all add: load_contacts_def load_tasks_def)

lemma load_other_malformed:
  "load_contacts NotUTF8 = Inl UnicodeDecodeError"
  "load_contacts (Content (JList [JStr ''ab''])) = Inl ValueError"
  "load_contacts (Content (JList [JList [JList [JStr ''id'', JInt 1]]])) =
     Inr [[(KStr ''id'', JInt 1)]]"
  by (simp_all add: load_contacts_def)

subsection \<open>C3: save, then load\<close>



text \<open>
  The condition on the keys is needed. A dictionary with the integer key 1, which
  \<open>dict(entry)\<close> builds from the file content \<open>[[[1, "a"]]]\<close>, is not a record of the
  data model: \<open>json.dump\<close> writes its key as the string \<open>"1"\<close>, and that is what comes
  back.
\<close>

lemma roundtrip_writes_keys_as_strings:
  "load_contacts (Content (JList [JList [JList [JInt 1, JStr ''a'']]])) =
     Inr [[(KInt 1, JStr ''a'')]]"
  "load_contacts (content (save_contacts [[(KInt 1, JStr ''a'')]] disk0)) =
     Inr [[(KStr ''1'', JStr ''a'')]]"
  by code_simp+

subsection \<open>C4: search\<close>




subsection \<open>C5: update with blank answers\<close>

text \<open>
  Claim C5. Whenever \<open>update_contact\<close> or \<open>update_task\<close> returns, the store has as many
  records as before and, in every record, each editable field whose answer is empty (or
  only white space) has the value it had; when all the answers are blank the store is the
  same as before.
\<close>

theorem update_blank_keeps:
  "(update_contact contacts dk query_in choices name_in phone_in email_in address_in =
      Inr (msg, contacts', dk') \<longrightarrow>
    length contacts' = length contacts \<and>
    (\<forall>i<length contacts.
       (strip name_in = [] \<longrightarrow>
          lookup (contacts' ! i) (KStr ''name'') = lookup (contacts ! i) (KStr ''name'')) \<and>
       (strip phone_in = [] \<longrightarrow>
          lookup (contacts' ! i) (KStr ''phone'') = lookup (contacts ! i) (KStr ''phone'')) \<and>
       (strip email_in = [] \<longrightarrow>
          lookup (contacts' ! i) (KStr ''email'') = lookup (contacts ! i) (KStr ''email'')) \<and>
       (strip address_in = [] \<longrightarrow>
          lookup (contacts' ! i) (KStr ''address'') = lookup (contacts ! i) (KStr ''address''))) \<and>
    (strip name_in = [] \<and> strip phone_in = [] \<and> strip email_in = [] \<and> strip address_in = []
       \<longrightarrow> contacts' = contacts)) \<and>
   (update_task tasks dk id_in description_in due_in notes_in = Inr (msg2, tasks', dk2) \<longrightarrow>
    length tasks' = length tasks \<and>
    (\<forall>i<length tasks.
       (strip description_in = [] \<longrightarrow>
          lookup (tasks' ! i) (KStr ''description'') = lookup (tasks ! i) (KStr ''description'')) \<and>
       (strip due_in = [] \<longrightarrow>
          lookup (tasks' ! i) (KStr ''due_date'') = lookup (tasks ! i) (KStr ''due_date'')) \<and>
       (strip notes_in = [] \<longrightarrow>
          lookup (tasks' ! i) (KStr ''notes'') = lookup (tasks ! i) (KStr ''notes''))) \<and>
    (strip description_in = [] \<and> strip due_in = [] \<and> strip notes_in = []
       \<longrightarrow> tasks' = tasks))"
proof (intro conjI impI)
  assume "update_contact contacts dk query_in choices name_in phone_in email_in address_in =
      Inr (msg, contacts', dk')"
  note r = update_contact_result[OF this]
  show "length contacts' = length contacts" using r by auto
  show "\<forall>i<length contacts.
       (strip name_in = [] \<longrightarrow>
          lookup (contacts' ! i) (KStr ''name'') = lookup (contacts ! i) (KStr ''name'')) \<and>
       (strip phone_in = [] \<longrightarrow>
          lookup (contacts' ! i) (KStr ''phone'') = lookup (contacts ! i) (KStr ''phone'')) \<and>
       (strip email_in = [] \<longrightarrow>
          lookup (contacts' ! i) (KStr ''email'') = lookup (contacts ! i) (KStr ''email'')) \<and>
       (strip address_in = [] \<longrightarrow>
          lookup (contacts' ! i) (KStr ''address'') = lookup (contacts ! i) (KStr ''address''))"
    using r by (auto simp: nth_list_update lookup_set_if)
  show "contacts' = contacts"
    if "strip name_in = [] \<and> strip phone_in = [] \<and> strip email_in = [] \<and> strip address_in = []"
    using r that by auto
next
  assume "update_task tasks dk id_in description_in due_in notes_in = Inr (msg2, tasks', dk2)"
  note r = update_task_result[OF this]
  show "length tasks' = length tasks" using r by auto
  show "\<forall>i<length tasks.
       (strip description_in = [] \<longrightarrow>
          lookup (tasks' ! i) (KStr ''description'') = lookup (tasks ! i) (KStr ''description'')) \<and>
       (strip due_in = [] \<longrightarrow>
          lookup (tasks' ! i) (KStr ''due_date'') = lookup (tasks ! i) (KStr ''due_date'')) \<and>
       (strip notes_in = [] \<longrightarrow>
          lookup (tasks' ! i) (KStr ''notes'') = lookup (tasks ! i) (KStr ''notes''))"
    using r by (auto simp: nth_list_update lookup_set_if lookup_setitem_str)
  show "tasks' = tasks"
    if "strip description_in = [] \<and> strip due_in = [] \<and> strip notes_in = []"
    using r that by auto
qed

theorem update_blank_keeps_witness:
  "update_contact bob_contacts disk0 ''BOB'' [''x'', ''7'', ''2''] '' '' ''555 0123'' '''' '''' =
     Inr (''Contact updated successfully!'',
          bob_contacts[1 := setitem (KStr ''phone'') (JStr ''555 0123'') (bob_contacts ! 1)],
          save_contacts
            (bob_contacts[1 := setitem (KStr ''phone'') (JStr ''555 0123'') (bob_contacts ! 1)])
            disk0) \<and>
   lookup ((bob_contacts[1 := setitem (KStr ''phone'') (JStr ''555 0123'') (bob_contacts ! 1)]) ! 1)
     (KStr ''name'') = lookup (bob_contacts ! 1) (KStr ''name'') \<and>
   update_task two_tasks disk0 (Some 2) '' '' '''' ''  '' =
     Inr (''Task updated successfully!'', two_tasks, save_tasks two_tasks disk0)"
proof -
  let ?new = "bob_contacts[1 := setitem (KStr ''phone'') (JStr ''555 0123'') (bob_contacts ! 1)]"
  have c: "update_contact bob_contacts disk0 ''BOB'' [''x'', ''7'', ''2''] '' '' ''555 0123'' '''' ''''
             = Inr (''Contact updated successfully!'', ?new, save_contacts ?new disk0)"
    by code_simp
  have t': "update_task two_tasks disk0 (Some 2) '' '' '''' ''  '' =
             Inr (''Task updated successfully!'', two_tasks, save_tasks two_tasks disk0)"
    by code_simp
  have blank: "strip '' '' = []" "strip '''' = []" "strip ''  '' = []" by code_simp+
  have one: "(1::nat) < length bob_contacts" by code_simp
  note k = update_blank_keeps[where contacts = bob_contacts and dk = disk0 and query_in = "''BOB''"
      and choices = "[''x'', ''7'', ''2'']" and name_in = "'' ''" and phone_in = "''555 0123''"
      and email_in = "''''" and address_in = "''''" and msg = "''Contact updated successfully!''"
      and contacts' = ?new and dk' = "save_contacts ?new disk0"
      and tasks = two_tasks and id_in = "Some 2" and description_in = "'' ''" and due_in = "''''"
      and notes_in = "''  ''" and ?msg2.0 = "''Task updated successfully!''" and tasks' = two_tasks
      and ?dk2.0 = "save_tasks two_tasks disk0"]
  from k c one blank have
    "lookup (?new ! 1) (KStr ''name'') = lookup (bob_contacts ! 1) (KStr ''name'')"
    by blast
  then show ?thesis using c t' by simp
qed

subsection \<open>C6: deleting an identifier that no task has\<close>

text \<open>
  Claim C6, as amended. For every store whose tasks can be listed (each has an \<open>id\<close> and
  a \<open>description\<close>) and every identifier that no task has, \<open>delete_task\<close> leaves the
  store and the file unchanged; it reports \<open>Task not found.\<close> when the store is not
  empty and the identifier is not 0, \<open>Deletion cancelled.\<close> when the identifier is 0 and
  \<open>No tasks found.\<close> (without asking for an identifier) when the store is empty.
\<close>

theorem delete_missing:
  assumes "list_tasks tasks = Inr ()"
    and "\<forall>t\<in>set tasks. \<not> py_eq (get t ''id'' JNull) (JInt n)"
  shows "delete_task tasks dk (Some n) confirm_in =
           Inr (if tasks = [] then ''No tasks found.''
                else if n = 0 then ''Deletion cancelled.'' else ''Task not found.'',
                tasks, dk)"
  using assms by (simp add: delete_task_def find_task_by_id_None[symmetric])

text \<open>
  The claim as stated fails: 0 is the identifier of no task of \<open>two_tasks\<close>, and the
  report is \<open>Deletion cancelled.\<close>; on the empty store the report is \<open>No tasks found.\<close>
\<close>

theorem delete_zero_cancels:
  "find_task_by_id two_tasks 0 = None \<and>
   delete_task two_tasks disk0 (Some 0) ''y'' = Inr (''Deletion cancelled.'', two_tasks, disk0) \<and>
   find_task_by_id [] 7 = None \<and>
   delete_task [] disk0 (Some 7) ''y'' = Inr (''No tasks found.'', [], disk0)"
  by code_simp

theorem delete_missing_witness:
  "delete_task two_tasks disk0 (Some 7) ''y'' = Inr (''Task not found.'', two_tasks, disk0)"
proof -
  have l: "list_tasks two_tasks = Inr ()" by code_simp
  have n: "\<forall>t\<in>set two_tasks. \<not> py_eq (get t ''id'' JNull) (JInt 7)" by code_simp
  have e: "two_tasks \<noteq> []" by code_simp
  show ?thesis using delete_missing[OF l n, of disk0 "''y''"] e by simp
qed

subsection \<open>C7: create validates the required fields\<close>

text \<open>
  Claim C7. \<open>add_contact\<close> leaves the store and the file as they were when the name or
  the phone is empty (or only white space), and otherwise appends one record with the
  stripped answers and saves the new store; \<open>add_task\<close> does the same with the
  description. So a record is appended, and the store saved, only when every required
  field is non-empty.
\<close>

theorem create_needs_fields:
  "(name_in = [] \<or> phone_in = [] \<or> strip name_in = [] \<or> strip phone_in = [] \<longrightarrow>
      snd (add_contact contacts dk name_in phone_in email_in address_in) = (contacts, dk)) \<and>
   (strip name_in \<noteq> [] \<and> strip phone_in \<noteq> [] \<longrightarrow>
      (\<exists>r. snd (add_contact contacts dk name_in phone_in email_in address_in) =
             (contacts @ [r], save_contacts (contacts @ [r]) dk) \<and>
           map fst r = [KStr ''id'', KStr ''name'', KStr ''phone'', KStr ''email'', KStr ''address''] \<and>
           get r ''name'' JNull = JStr (strip name_in) \<and>
           get r ''phone'' JNull = JStr (strip phone_in))) \<and>
   (description_in = [] \<or> strip description_in = [] \<longrightarrow>
      snd (add_task tasks dk description_in due_date_in notes_in) = (tasks, dk)) \<and>
   (strip description_in \<noteq> [] \<longrightarrow>
      (\<exists>r. snd (add_task tasks dk description_in due_date_in notes_in) =
             (tasks @ [r], save_tasks (tasks @ [r]) dk) \<and>
           get r ''description'' JNull = JStr (strip description_in)))"
  by (auto simp: add_contact_def add_task_def Let_def get_def)

theorem create_needs_fields_witness:
  "snd (add_contact bob_contacts disk0 ''  '' ''555 0101'' '''' '''') = (bob_contacts, disk0) \<and>
   snd (add_task two_tasks disk0 '''' ''2024-02-29'' ''soon'') = (two_tasks, disk0) \<and>
   (\<exists>r. snd (add_contact bob_contacts disk0 ''Ann'' ''555 0101'' '''' '''') =
          (bob_contacts @ [r], save_contacts (bob_contacts @ [r]) disk0) \<and>
        get r ''name'' JNull = JStr ''Ann'') \<and>
   (\<exists>r. snd (add_task two_tasks disk0 '' pay rent'' '''' '''') =
          (two_tasks @ [r], save_tasks (two_tasks @ [r]) disk0) \<and>
        get r ''description'' JNull = JStr ''pay rent'')"
proof -
  have blank: "strip ''  '' = []" by code_simp
  have full: "strip ''Ann'' = ''Ann''" "strip ''555 0101'' = ''555 0101''"
    "strip '' pay rent'' = ''pay rent''"
    by code_simp+
  note a = create_needs_fields[where name_in = "''  ''" and phone_in = "''555 0101''"
      and contacts = bob_contacts and dk = disk0 and email_in = "''''" and address_in = "''''"
      and description_in = "''''" and tasks = two_tasks and due_date_in = "''2024-02-29''"
      and notes_in = "''soon''"]
  note b = create_needs_fields[where name_in = "''Ann''" and phone_in = "''555 0101''"
      and contacts = bob_contacts and dk = disk0 and email_in = "''''" and address_in = "''''"
      and description_in = "'' pay rent''" and tasks = two_tasks and due_date_in = "''''"
      and notes_in = "''''"]
  show ?thesis using a b blank by (auto simp: full)
qed

subsection \<open>C8: N creations\<close>

text \<open>
  Claim C8. Starting from any store, N successful creations in a row append N records
  whose identifiers are \<open>g, g + 1, \<dots>, g + N - 1\<close> for \<open>g\<close> the identifier
  \<open>generate_new_id\<close> gives on the starting store: they are strictly increasing in the
  order of creation and pairwise distinct. This holds for contacts and for tasks.
\<close>

theorem created_ids_increase:
  "((\<forall>inp\<in>set contact_inputs. strip (fst inp) \<noteq> [] \<and> strip (fst (snd inp)) \<noteq> []) \<longrightarrow>
      (\<exists>news. fst (add_contacts contacts dk contact_inputs) = contacts @ news \<and>
         length news = length contact_inputs \<and>
         ids news =
           map (\<lambda>k. JInt (generate_new_id contacts + int k)) [0..<length contact_inputs] \<and>
         sorted_wrt (<) (map int_value (ids news)) \<and>
         distinct (ids news))) \<and>
   ((\<forall>inp\<in>set task_inputs. strip (fst inp) \<noteq> []) \<longrightarrow>
      (\<exists>news. fst (add_tasks tasks dk task_inputs) = tasks @ news \<and>
         length news = length task_inputs \<and>
         ids news = map (\<lambda>k. JInt (generate_new_id tasks + int k)) [0..<length task_inputs] \<and>
         sorted_wrt (<) (map int_value (ids news)) \<and>
         distinct (ids news)))"
proof (intro conjI impI)
  assume "\<forall>inp\<in>set contact_inputs. strip (fst inp) \<noteq> [] \<and> strip (fst (snd inp)) \<noteq> []"
  from add_contacts_ids[OF this, of contacts dk] obtain news where
    news: "fst (add_contacts contacts dk contact_inputs) = contacts @ news"
      "ids news =
         map (\<lambda>k. JInt (generate_new_id contacts + int k)) [0..<length contact_inputs]"
    by blast
  from news counting_ids[OF news(2)]
  show "\<exists>news. fst (add_contacts contacts dk contact_inputs) = contacts @ news \<and>
         length news = length contact_inputs \<and>
         ids news =
           map (\<lambda>k. JInt (generate_new_id contacts + int k)) [0..<length contact_inputs] \<and>
         sorted_wrt (<) (map int_value (ids news)) \<and>
         distinct (ids news)"
    by blast
next
  assume "\<forall>inp\<in>set task_inputs. strip (fst inp) \<noteq> []"
  from add_tasks_ids[OF this, of tasks dk] obtain news where
    news: "fst (add_tasks tasks dk task_inputs) = tasks @ news"
      "ids news = map (\<lambda>k. JInt (generate_new_id tasks + int k)) [0..<length task_inputs]"
    by blast
  from news counting_ids[OF news(2)]
  show "\<exists>news. fst (add_tasks tasks dk task_inputs) = tasks @ news \<and>
         length news = length task_inputs \<and>
         ids news = map (\<lambda>k. JInt (generate_new_id tasks + int k)) [0..<length task_inputs] \<and>
         sorted_wrt (<) (map int_value (ids news)) \<and>
         distinct (ids news)"
    by blast
qed

theorem created_ids_increase_witness:
  "(\<exists>news. fst (add_contacts bob_contacts disk0 two_inputs) = bob_contacts @ news \<and>
      ids news = [JInt 3, JInt 4] \<and>
      sorted_wrt (<) (map int_value (ids news)) \<and> distinct (ids news)) \<and>
   (\<exists>news. fst (add_tasks two_tasks disk0 three_inputs) = two_tasks @ news \<and>
      ids news = [JInt 3, JInt 4, JInt 5] \<and>
      sorted_wrt (<) (map int_value (ids news)) \<and> distinct (ids news))"
proof -
  have c: "\<forall>inp\<in>set two_inputs. strip (fst inp) \<noteq> [] \<and> strip (fst (snd inp)) \<noteq> []"
    by code_simp
  have t: "\<forall>inp\<in>set three_inputs. strip (fst inp) \<noteq> []" by code_simp
  have gc: "map (\<lambda>k. JInt (generate_new_id bob_contacts + int k)) [0..<length two_inputs] =
            [JInt 3, JInt 4]"
    by code_simp
  have gt: "map (\<lambda>k. JInt (generate_new_id two_tasks + int k)) [0..<length three_inputs] =
            [JInt 3, JInt 4, JInt 5]"
    by code_simp
  from created_ids_increase[where contact_inputs = two_inputs and contacts = bob_contacts
      and dk = disk0 and task_inputs = three_inputs and tasks = two_tasks] c t
  show ?thesis unfolding gc gt by blast
qed

subsection \<open>C9: the password generator\<close>

text \<open>
  Claim C9. \<open>generate_password\<close> raises \<open>ValueError\<close> exactly when the length is not
  positive or no character set is enabled; otherwise it returns a string of exactly
  \<open>length\<close> characters, each from the union of the enabled character sets, whatever the
  random source draws.
\<close>

theorem generate_password_spec:
  "(generate_password len use_uppercase use_lowercase use_digits use_symbols rnd = Inl ValueError
      \<longleftrightarrow> len \<le> 0 \<or> \<not> (use_uppercase \<or> use_lowercase \<or> use_digits \<or> use_symbols)) \<and>
   (0 < len \<and> (use_uppercase \<or> use_lowercase \<or> use_digits \<or> use_symbols) \<longrightarrow>
      (\<exists>password.
         generate_password len use_uppercase use_lowercase use_digits use_symbols rnd
           = Inr password \<and>
         int (length password) = len \<and>
         set password \<subseteq>
           (if use_lowercase then set ascii_lowercase else {}) \<union>
           (if use_uppercase then set ascii_uppercase else {}) \<union>
           (if use_digits then set digits else {}) \<union>
           (if use_symbols then set punctuation else {})))"
proof -
  define characters where "characters =
              (if use_lowercase then ascii_lowercase else []) @
              (if use_uppercase then ascii_uppercase else []) @
              (if use_digits then digits else []) @
              (if use_symbols then punctuation else [])"
  have none: "characters = [] \<longleftrightarrow>
              \<not> (use_uppercase \<or> use_lowercase \<or> use_digits \<or> use_symbols)"
    by (simp add: characters_def charsets_nonempty)
  have pool: "set characters =
           (if use_lowercase then set ascii_lowercase else {}) \<union>
           (if use_uppercase then set ascii_uppercase else {}) \<union>
           (if use_digits then set digits else {}) \<union>
           (if use_symbols then set punctuation else {})"
    by (auto simp: characters_def)
  have run: "generate_password len use_uppercase use_lowercase use_digits use_symbols rnd =
     (if len \<le> 0 then Inl ValueError
      else if characters = [] then Inl ValueError
           else Inr (map (\<lambda>j. characters ! (rnd j mod length characters)) [0..<nat len]))"
    by (simp add: generate_password_def characters_def Let_def)
  have drawn: "characters \<noteq> [] \<Longrightarrow>
      set (map (\<lambda>j. characters ! (rnd j mod length characters)) [0..<nat len]) \<subseteq> set characters"
    by (auto intro!: nth_mem)
  show ?thesis using none pool drawn by (auto simp: run)
qed

theorem generate_password_spec_witness:
  "generate_password 5 True False False True (\<lambda>j. 7 * j + 3) \<noteq> Inl ValueError \<and>
   generate_password 0 True False False True (\<lambda>j. 7 * j + 3) = Inl ValueError \<and>
   (\<exists>password.
      generate_password 5 True False False True (\<lambda>j. 7 * j + 3) = Inr password \<and>
      int (length password) = 5 \<and>
      set password \<subseteq> set ascii_uppercase \<union> set punctuation)"
  using generate_password_spec[of 5 True False False True "\<lambda>j. 7 * j + 3"]
    generate_password_spec[of 0 True False False True "\<lambda>j. 7 * j + 3"]
  by simp

subsection \<open>C10: toggling twice\<close>

text \<open>
  Claim C10. For every store whose tasks can be listed and every identifier that a task
  of the store has, toggling that identifier twice succeeds both times and leaves, in
  every task, the completion status (the truth value of \<open>completed\<close>, what the list shows
  as Completed or Pending) and every other field as they were; when the task's
  \<open>completed\<close> is a boolean, as in every task the program creates, the store is the same
  as before.
\<close>

theorem toggle_twice:
  assumes listed: "list_tasks tasks = Inr ()"
    and found: "find_task_by_id tasks n = Some (i, t)"
  shows "\<exists>m1 tasks1 dk1 m2 tasks2 dk2.
           toggle_completion tasks dk (Some n) = Inr (m1, tasks1, dk1) \<and>
           toggle_completion tasks1 dk1 (Some n) = Inr (m2, tasks2, dk2) \<and>
           length tasks2 = length tasks \<and>
           (\<forall>j<length tasks.
              truthy (get (tasks2 ! j) ''completed'' (JBool False)) =
              truthy (get (tasks ! j) ''completed'' (JBool False)) \<and>
              (\<forall>k. k \<noteq> KStr ''completed'' \<longrightarrow> lookup (tasks2 ! j) k = lookup (tasks ! j) k)) \<and>
           ((\<exists>b. lookup t (KStr ''completed'') = Some (JBool b)) \<longrightarrow> tasks2 = tasks)"
proof (cases "n = 0")
  case True
  from found have "tasks \<noteq> []" by (auto simp: find_task_by_id_Some)
  then have "toggle_completion tasks dk (Some n) = Inr (''Operation cancelled.'', tasks, dk)"
    using listed True by (simp add: toggle_completion_def)
  then show ?thesis by auto
next
  case False
  from found have i: "i < length tasks" and t: "t = tasks ! i"
    by (simp_all add: find_task_by_id_Some)
  let ?t1 = "toggled t" and ?t2 = "toggled (toggled t)"
  let ?tasks1 = "tasks[i := ?t1]"
  let ?tasks2 = "tasks[i := ?t2]"
  from toggle_found[OF listed False found] obtain m1 where
    one: "toggle_completion tasks dk (Some n) = Inr (m1, ?tasks1, save_tasks ?tasks1 dk)"
    by blast
  have keys: "has_key ?t1 ''id''" "has_key ?t1 ''description''"
    using list_tasks_nth[OF listed i] t by (simp_all add: toggled_def has_key_setitem)
  have listed1: "list_tasks ?tasks1 = Inr ()"
    by (rule list_tasks_update[OF listed i keys])
  have found1: "find_task_by_id ?tasks1 n = Some (i, ?t1)"
    by (rule find_task_by_id_update[OF found]) (simp add: toggled_def get_setitem)
  from toggle_found[OF listed1 False found1] obtain m2 where
    two: "toggle_completion ?tasks1 (save_tasks ?tasks1 dk) (Some n) =
            Inr (m2, ?tasks2, save_tasks ?tasks2 (save_tasks ?tasks1 dk))"
    by auto
  have same: "\<forall>j<length tasks.
      truthy (get (?tasks2 ! j) ''completed'' (JBool False)) =
      truthy (get (tasks ! j) ''completed'' (JBool False)) \<and>
      (\<forall>k. k \<noteq> KStr ''completed'' \<longrightarrow> lookup (?tasks2 ! j) k = lookup (tasks ! j) k)"
    using t i by (simp add: nth_list_update toggled_toggled_lookup toggled_toggled_status)
  have restored: "(\<exists>b. lookup t (KStr ''completed'') = Some (JBool b)) \<longrightarrow> ?tasks2 = tasks"
    using t by (auto simp: toggled_toggled_bool)
  show ?thesis using one two same restored by (intro exI conjI) (assumption | simp)+
qed

theorem toggle_twice_witness:
  "\<exists>m1 tasks1 dk1 m2 dk2.
     toggle_completion two_tasks disk0 (Some 2) = Inr (m1, tasks1, dk1) \<and>
     toggle_completion tasks1 dk1 (Some 2) = Inr (m2, two_tasks, dk2)"
proof -
  have l: "list_tasks two_tasks = Inr ()" by code_simp
  have f: "find_task_by_id two_tasks 2 = Some (1, two_tasks ! 1)" by code_simp
  have b: "lookup (two_tasks ! 1) (KStr ''completed'') = Some (JBool False)" by code_simp
  from toggle_twice[OF l f, of disk0] b show ?thesis by blast
qed

end
